theory Spec2Isabelle
  imports Complex_Main "HOL-Library.Sublist"
begin

section \<open>The rental backend of \<open>server.js\<close>\<close>

text \<open>
  \<open>server.js\<close> is an Express application over two Mongoose collections, \<open>User\<close> and
  \<open>Item\<close>. Each route handler is embedded as a function from the database and the request
  fields to the HTTP response and the database afterwards. The handlers are sequential:
  one request is served at a time and the database answers every call.

  Request fields carry the JSON type the schema declares for them (a string, a number) or
  are absent (\<open>None\<close>, JavaScript's \<open>undefined\<close>); the password of a login is a JSON
  string or a JSON number. The \<open>:id\<close> of a URL is a string, which Mongoose casts to an
  ObjectId or refuses. Stored numbers are the finite ones, as rationals: the handlers only
  compare them. What the libraries compute is taken as a parameter wherever the source
  calls them: \<open>Date.parse\<close> behind \<open>new Date(string)\<close>, \<open>Number(string)\<close>, \<open>bcrypt.hash\<close>,
  \<open>bcrypt.compare\<close> on two strings, the cast of a string to an ObjectId, and the
  database's regular expressions beyond the fragment modelled below. What Mongoose and
  bcrypt do with a value that does not fit (an Invalid Date, a \<open>NaN\<close>, a malformed
  identifier, a password that is not a string) is written out where the handlers meet it:
  the call rejects, and the handler's \<open>catch\<close> answers 500.
\<close>

subsection \<open>Documents and the database\<close>

type_synonym oid = nat

text \<open>A \<open>Date\<close> path of a stored document holds a time value (milliseconds since the
  epoch) or none: the path is absent or \<open>null\<close>.\<close>

type_synonym date_field = "int option"

fun is_set :: "date_field \<Rightarrow> bool" where
  "is_set (Some t) = True"
| "is_set None = False"

text \<open>\<open>UserSchema\<close> (lines 35-45) and \<open>ItemSchema\<close> (lines 102-113).\<close>

record user =
  email :: string
  password :: string

record item =
  item_id :: oid
  title :: string
  description :: "string option"
  pricePerDay :: rat
  category :: string
  imageUrl :: "string option"
  available :: bool
  ownerEmail :: string
  rentedFrom :: date_field
  rentedTill :: date_field
  createdAt :: int

record db =
  users :: "user list"
  items :: "item list"

definition empty_db :: db where
  "empty_db = \<lparr>users = [], items = []\<rparr>"

subsection \<open>Responses\<close>

text \<open>\<open>res.status(n).json(...)\<close>: the status code and the JSON body. \<open>res.json(...)\<close> alone
  answers 200. The failure responses carry the names of the specification's error kinds;
  its \<open>ValidationError\<close> has two messages, one of the user routes and one of \<open>POST /items\<close>.\<close>

datatype body = Msg string | MsgItemId string oid | ItemList "item list"

type_synonym response = "nat \<times> body"

abbreviation ValidationError_user :: response where
  "ValidationError_user \<equiv> (400, Msg ''Email and password required'')"

abbreviation ValidationError_item :: response where
  "ValidationError_item \<equiv> (400, Msg ''Missing required fields'')"

abbreviation DuplicateError :: response where
  "DuplicateError \<equiv> (400, Msg ''User already exists'')"

abbreviation AuthError :: response where
  "AuthError \<equiv> (400, Msg ''Invalid email or password'')"

abbreviation NotFoundError :: response where
  "NotFoundError \<equiv> (404, Msg ''Item not found'')"

abbreviation ConflictError :: response where
  "ConflictError \<equiv> (400, Msg ''Item already rented'')"

abbreviation InternalError :: response where
  "InternalError \<equiv> (500, Msg ''Server error'')"

subsection \<open>JavaScript values\<close>

text \<open>\<open>!x\<close> on a string-or-undefined and on a number-or-undefined value: the empty string
  and zero are falsy, as \<open>undefined\<close> is.\<close>

fun truthy :: "string option \<Rightarrow> bool" where
  "truthy None = False"
| "truthy (Some s) = (s \<noteq> [])"

fun truthy_num :: "rat option \<Rightarrow> bool" where
  "truthy_num None = False"
| "truthy_num (Some n) = (n \<noteq> 0)"

text \<open>A field of a JSON body that may be a string or a number, and \<open>!x\<close> on it.\<close>

datatype jsval = JString string | JNumber rat

fun truthy_val :: "jsval option \<Rightarrow> bool" where
  "truthy_val None = False"
| "truthy_val (Some (JString s)) = (s \<noteq> [])"
| "truthy_val (Some (JNumber n)) = (n \<noteq> 0)"

text \<open>A \<open>Date\<close> object: a time value or Invalid Date. \<open>new Date(undefined)\<close> is Invalid Date;
  \<open>new Date(s)\<close> for a string is \<open>Date.parse(s)\<close>, whose result \<open>None\<close> stands for \<open>NaN\<close>.\<close>

datatype jsdate = InvalidDate | Date int

fun Date_new :: "(string \<Rightarrow> int option) \<Rightarrow> string option \<Rightarrow> jsdate" where
  "Date_new parse None = InvalidDate"
| "Date_new parse (Some s) = (case parse s of None \<Rightarrow> InvalidDate | Some t \<Rightarrow> Date t)"

text \<open>Mongoose's cast of a \<open>Date\<close> object assigned to a \<open>Date\<close> path: a valid one is kept,
  and an Invalid Date is a \<open>CastError\<close>, recorded on the document so that \<open>save()\<close>
  rejects (\<open>None\<close>).\<close>

fun cast_date :: "jsdate \<Rightarrow> date_field option" where
  "cast_date InvalidDate = None"
| "cast_date (Date t) = Some (Some t)"

subsection \<open>Collection operations\<close>

definition findById :: "db \<Rightarrow> oid \<Rightarrow> item option" where
  "findById d i = find (\<lambda>x. item_id x = i) (items d)"

text \<open>\<open>item.save()\<close> of a document read by \<open>findById\<close>: the stored document with that \<open>_id\<close>
  is replaced.\<close>

definition save :: "db \<Rightarrow> item \<Rightarrow> db" where
  "save d it = d\<lparr>items := map (\<lambda>x. if item_id x = item_id it then it else x) (items d)\<rparr>"

text \<open>\<open>new Item(...).save()\<close>: the insert is refused when the \<open>_id\<close> is already in the
  collection (the unique index on \<open>_id\<close>).\<close>

definition insert_item :: "db \<Rightarrow> item \<Rightarrow> db option" where
  "insert_item d it =
     (if item_id it \<in> set (map item_id (items d)) then None
      else Some (d\<lparr>items := items d @ [it]\<rparr>))"

subsection \<open>POST /items/:id/book (lines 174-189) and POST /items/:id/return (lines 192-206)\<close>

text \<open>\<open>bookItem\<close> and \<open>returnItem\<close> are the two handlers from the point where
  \<open>Item.findById\<close> has cast \<open>req.params.id\<close> to an ObjectId; \<open>post_book\<close> and
  \<open>post_return\<close> below are the handlers on the \<open>:id\<close> as it stands in the URL.\<close>

definition bookItem ::
  "(string \<Rightarrow> int option) \<Rightarrow> db \<Rightarrow> oid \<Rightarrow> string option \<Rightarrow> string option \<Rightarrow> response \<times> db" where
  "bookItem parse d i startDate endDate =
     (case findById d i of
        None \<Rightarrow> (NotFoundError, d)
      | Some it \<Rightarrow>
          if \<not> available it then (ConflictError, d)
          else
            (case (cast_date (Date_new parse startDate), cast_date (Date_new parse endDate)) of
               (Some f, Some t) \<Rightarrow>
                 ((200, Msg ''Item booked successfully''),
                  save d (it\<lparr>available := False, rentedFrom := f, rentedTill := t\<rparr>))
             | _ \<Rightarrow> (InternalError, d)))"

definition returnItem :: "db \<Rightarrow> oid \<Rightarrow> response \<times> db" where
  "returnItem d i =
     (case findById d i of
        None \<Rightarrow> (NotFoundError, d)
      | Some it \<Rightarrow>
          ((200, Msg ''Item returned successfully''),
           save d (it\<lparr>available := True, rentedFrom := None, rentedTill := None\<rparr>)))"

text \<open>\<open>Item.findById(req.params.id)\<close> casts the string to an ObjectId first. \<open>objectId\<close> is
  that cast; where it fails (\<open>None\<close>, a \<open>CastError\<close>) the query rejects and the handler's
  \<open>catch\<close> answers 500.\<close>

definition post_book ::
  "(string \<Rightarrow> oid option) \<Rightarrow> (string \<Rightarrow> int option) \<Rightarrow> db \<Rightarrow> string \<Rightarrow> string option
     \<Rightarrow> string option \<Rightarrow> response \<times> db" where
  "post_book objectId parse d ident startDate endDate =
     (case objectId ident of
        None \<Rightarrow> (InternalError, d)
      | Some i \<Rightarrow> bookItem parse d i startDate endDate)"

definition post_return :: "(string \<Rightarrow> oid option) \<Rightarrow> db \<Rightarrow> string \<Rightarrow> response \<times> db" where
  "post_return objectId d ident =
     (case objectId ident of
        None \<Rightarrow> (InternalError, d)
      | Some i \<Rightarrow> returnItem d i)"

subsection \<open>POST /register (lines 50-74) and POST /login (lines 77-99)\<close>

definition findOne :: "db \<Rightarrow> string \<Rightarrow> user option" where
  "findOne d e = find (\<lambda>u. email u = e) (users d)"

text \<open>\<open>bcrypt.hash(password, 8)\<close> draws a salt; the salt is an argument here.\<close>

definition register ::
  "(string \<Rightarrow> string \<Rightarrow> nat \<Rightarrow> string) \<Rightarrow> string \<Rightarrow> db \<Rightarrow> string option \<Rightarrow> string option
     \<Rightarrow> response \<times> db" where
  "register hash salt d email_in password_in =
     (if \<not> truthy email_in \<or> \<not> truthy password_in then (ValidationError_user, d)
      else
        (case (email_in, password_in) of
           (Some e, Some p) \<Rightarrow>
             (case findOne d e of
                Some existingUser \<Rightarrow> (DuplicateError, d)
              | None \<Rightarrow>
                  ((201, Msg ''User registered successfully''),
                   d\<lparr>users := users d @ [\<lparr>email = e, password = hash salt p 8\<rparr>]\<rparr>))
         | _ \<Rightarrow> (ValidationError_user, d)))"

text \<open>\<open>bcrypt.compare(password, hash)\<close>: on two strings it answers whether they match
  (\<open>compare\<close>); a password that is not a string makes it reject (\<open>None\<close>).\<close>

fun bcrypt_compare_any :: "(string \<Rightarrow> string \<Rightarrow> bool) \<Rightarrow> jsval \<Rightarrow> string \<Rightarrow> bool option" where
  "bcrypt_compare_any compare (JString p) h = Some (compare p h)"
| "bcrypt_compare_any compare (JNumber n) h = None"

text \<open>Lines 85-98: the lookup and the comparison, once both fields are known to be present,
  and the \<open>catch\<close> for a comparison that rejects.\<close>

definition verify :: "(string \<Rightarrow> string \<Rightarrow> bool) \<Rightarrow> db \<Rightarrow> string \<Rightarrow> jsval \<Rightarrow> response" where
  "verify compare d e p =
     (case findOne d e of
        None \<Rightarrow> AuthError
      | Some u \<Rightarrow>
          (case bcrypt_compare_any compare p (password u) of
             None \<Rightarrow> InternalError
           | Some isMatch \<Rightarrow>
               if \<not> isMatch then AuthError
               else (200, Msg ''Login successful'')))"

definition login ::
  "(string \<Rightarrow> string \<Rightarrow> bool) \<Rightarrow> db \<Rightarrow> string option \<Rightarrow> jsval option \<Rightarrow> response \<times> db" where
  "login compare d email_in password_in =
     (if \<not> truthy email_in \<or> \<not> truthy_val password_in then (ValidationError_user, d)
      else
        (case (email_in, password_in) of
           (Some e, Some p) \<Rightarrow> (verify compare d e p, d)
         | _ \<Rightarrow> (ValidationError_user, d)))"

subsection \<open>POST /items (lines 118-139)\<close>

text \<open>\<open>new_id\<close> is the ObjectId that \<open>new Item\<close> generates and \<open>now\<close> the value of
  \<open>Date.now\<close> behind the default of \<open>createdAt\<close>.\<close>

definition addItem ::
  "oid \<Rightarrow> int \<Rightarrow> db \<Rightarrow> string option \<Rightarrow> string option \<Rightarrow> rat option \<Rightarrow> string option
     \<Rightarrow> string option \<Rightarrow> string option \<Rightarrow> response \<times> db" where
  "addItem new_id now d title_in description_in pricePerDay_in category_in imageUrl_in ownerEmail_in =
     (if \<not> truthy title_in \<or> \<not> truthy_num pricePerDay_in \<or> \<not> truthy category_in
         \<or> \<not> truthy ownerEmail_in
      then (ValidationError_item, d)
      else
        (case (title_in, pricePerDay_in, category_in, ownerEmail_in) of
           (Some t, Some p, Some c, Some ow) \<Rightarrow>
             (case insert_item d
                     \<lparr>item_id = new_id, title = t, description = description_in,
                      pricePerDay = p, category = c, imageUrl = imageUrl_in,
                      available = True, ownerEmail = ow,
                      rentedFrom = None, rentedTill = None, createdAt = now\<rparr> of
                None \<Rightarrow> (InternalError, d)
              | Some d' \<Rightarrow> ((201, MsgItemId ''Item added successfully'' new_id), d'))
         | _ \<Rightarrow> (ValidationError_item, d)))"

subsection \<open>GET /items (lines 142-161)\<close>

text \<open>\<open>Number(s)\<close> of a query string: \<open>NaN\<close>, a finite number, or one of the infinities
  (\<open>Number("Infinity")\<close>, \<open>Number("1e999")\<close>).\<close>

datatype jsnum = NaN | Num rat | Infinity | MinusInfinity

text \<open>The order of numbers between a bound and a stored price, which is finite: \<open>b \<le> p\<close> and
  \<open>p \<le> b\<close>. \<open>NaN\<close> compares with nothing.\<close>

fun num_le_price :: "jsnum \<Rightarrow> rat \<Rightarrow> bool" where
  "num_le_price NaN p = False"
| "num_le_price (Num b) p = (b \<le> p)"
| "num_le_price Infinity p = False"
| "num_le_price MinusInfinity p = True"

fun price_le_num :: "rat \<Rightarrow> jsnum \<Rightarrow> bool" where
  "price_le_num p NaN = False"
| "price_le_num p (Num b) = (p \<le> b)"
| "price_le_num p Infinity = True"
| "price_le_num p MinusInfinity = False"

text \<open>The \<open>filter\<close> object the handler builds. \<open>filter_pricePerDay\<close> is the nested object
  with its optional \<open>$gte\<close> and \<open>$lte\<close>.\<close>

record item_filter =
  filter_category :: "string option"
  filter_available :: "bool option"
  filter_ownerEmail :: "string option"
  filter_pricePerDay :: "(jsnum option \<times> jsnum option) option"

text \<open>\<open>if (minPrice) filter.pricePerDay.$gte = Number(minPrice)\<close>, and the same for
  \<open>maxPrice\<close>: the operand, when the operator is set.\<close>

definition bound_of :: "(string \<Rightarrow> jsnum) \<Rightarrow> string option \<Rightarrow> jsnum option" where
  "bound_of Number m =
     (case m of Some s \<Rightarrow> if s \<noteq> [] then Some (Number s) else None | None \<Rightarrow> None)"

definition make_filter ::
  "(string \<Rightarrow> jsnum) \<Rightarrow> string option \<Rightarrow> string option \<Rightarrow> string option \<Rightarrow> string option
     \<Rightarrow> string option \<Rightarrow> item_filter" where
  "make_filter Number category_q minPrice maxPrice available_q ownerEmail_q =
     \<lparr>filter_category = (if truthy category_q then category_q else None),
      filter_available =
        (case available_q of None \<Rightarrow> None | Some a \<Rightarrow> Some (a = ''true'')),
      filter_ownerEmail = (if truthy ownerEmail_q then ownerEmail_q else None),
      filter_pricePerDay =
        (if truthy minPrice \<or> truthy maxPrice
         then Some (bound_of Number minPrice, bound_of Number maxPrice)
         else None)\<rparr>"

text \<open>Mongoose casts the operands of \<open>$gte\<close> and \<open>$lte\<close> to the path's type: \<open>NaN\<close> is a
  \<open>CastError\<close> and the query rejects; every other number, the infinities too, passes.\<close>

fun cast_bound :: "jsnum option \<Rightarrow> jsnum option option" where
  "cast_bound None = Some None"
| "cast_bound (Some NaN) = None"
| "cast_bound (Some (Num r)) = Some (Some (Num r))"
| "cast_bound (Some Infinity) = Some (Some Infinity)"
| "cast_bound (Some MinusInfinity) = Some (Some MinusInfinity)"

fun ge_bound :: "jsnum option \<Rightarrow> rat \<Rightarrow> bool" where
  "ge_bound None p = True"
| "ge_bound (Some lo) p = num_le_price lo p"

fun le_bound :: "jsnum option \<Rightarrow> rat \<Rightarrow> bool" where
  "le_bound None p = True"
| "le_bound (Some hi) p = price_le_num p hi"

text \<open>A document matches when every condition of the filter holds. A nested price object
  with neither operator would ask for equality with an empty object, which no number has;
  the handler never builds one.\<close>

definition matches :: "string option \<Rightarrow> bool option \<Rightarrow> string option \<Rightarrow> (jsnum option \<times> jsnum option) option
     \<Rightarrow> item \<Rightarrow> bool" where
  "matches c a ow pr it =
     ((case c of None \<Rightarrow> True | Some v \<Rightarrow> category it = v) \<and>
      (case a of None \<Rightarrow> True | Some b \<Rightarrow> available it = b) \<and>
      (case ow of None \<Rightarrow> True | Some v \<Rightarrow> ownerEmail it = v) \<and>
      (case pr of None \<Rightarrow> True
       | Some (None, None) \<Rightarrow> False
       | Some (lo, hi) \<Rightarrow> ge_bound lo (pricePerDay it) \<and> le_bound hi (pricePerDay it)))"

definition Item_find :: "item_filter \<Rightarrow> db \<Rightarrow> item list option" where
  "Item_find f d =
     (case filter_pricePerDay f of
        None \<Rightarrow>
          Some (filter (matches (filter_category f) (filter_available f) (filter_ownerEmail f) None)
                  (items d))
      | Some (g, l) \<Rightarrow>
          (case (cast_bound g, cast_bound l) of
             (Some lo, Some hi) \<Rightarrow>
               Some (filter (matches (filter_category f) (filter_available f) (filter_ownerEmail f)
                               (Some (lo, hi))) (items d))
           | _ \<Rightarrow> None))"

definition listItems ::
  "(string \<Rightarrow> jsnum) \<Rightarrow> db \<Rightarrow> string option \<Rightarrow> string option \<Rightarrow> string option \<Rightarrow> string option
     \<Rightarrow> string option \<Rightarrow> response \<times> db" where
  "listItems Number d category_q minPrice maxPrice available_q ownerEmail_q =
     (case Item_find (make_filter Number category_q minPrice maxPrice available_q ownerEmail_q) d of
        None \<Rightarrow> (InternalError, d)
      | Some found \<Rightarrow> ((200, ItemList found), d))"

subsection \<open>GET /items/search (lines 164-171)\<close>

text \<open>
  The handler hands \<open>q\<close> to the database as a regular expression with option \<open>i\<close>. The
  fragment modelled here is a pattern made of ordinary characters and dots: an ordinary
  character matches itself in either case, a dot matches any character but a line feed,
  and the pattern may match anywhere in the title. Two characters are the same but for
  case when the engine's case folding \<open>casefold\<close> takes them to the same character; \<open>lower\<close>
  is that folding on the ASCII letters, for the examples. A pattern that holds a NUL
  character is rejected. A pattern with any other metacharacter is handed to \<open>other\<close>,
  the rest of the regular-expression engine, which compiles it or rejects it (\<open>None\<close>).
  Without a \<open>q\<close> in the query string the pattern is \<open>undefined\<close>, which the database
  refuses: the query rejects and the handler's \<open>catch\<close> answers 500.
\<close>

definition lower :: "char \<Rightarrow> char" where
  "lower c =
     (case map_of (zip ''ABCDEFGHIJKLMNOPQRSTUVWXYZ'' ''abcdefghijklmnopqrstuvwxyz'') c of
        None \<Rightarrow> c
      | Some l \<Rightarrow> l)"

definition metachars :: "char list" where
  "metachars = [CHR 0x5C, CHR ''^'', CHR ''$'', CHR ''.'', CHR ''|'', CHR ''?'', CHR ''*'',
                CHR ''+'', CHR ''('', CHR '')'', CHR ''['', CHR '']'', CHR ''{'', CHR ''}'']"

datatype atom = Lit char | AnyChar

fun atom_matches :: "(char \<Rightarrow> char) \<Rightarrow> atom \<Rightarrow> char \<Rightarrow> bool" where
  "atom_matches casefold (Lit c) x = (casefold c = casefold x)"
| "atom_matches casefold AnyChar x = (x \<noteq> CHR 0x0A)"

fun match_here :: "(char \<Rightarrow> char) \<Rightarrow> atom list \<Rightarrow> string \<Rightarrow> bool" where
  "match_here casefold [] t = True"
| "match_here casefold (a # as) [] = False"
| "match_here casefold (a # as) (x # t) = (atom_matches casefold a x \<and> match_here casefold as t)"

fun match_anywhere :: "(char \<Rightarrow> char) \<Rightarrow> atom list \<Rightarrow> string \<Rightarrow> bool" where
  "match_anywhere casefold as [] = match_here casefold as []"
| "match_anywhere casefold as (x # t) = (match_here casefold as (x # t) \<or> match_anywhere casefold as t)"

fun parse_atoms :: "string \<Rightarrow> atom list option" where
  "parse_atoms [] = Some []"
| "parse_atoms (c # cs) =
     (if c = CHR ''.'' then map_option ((#) AnyChar) (parse_atoms cs)
      else if c \<in> set metachars then None
      else map_option ((#) (Lit c)) (parse_atoms cs))"

definition regex_i ::
  "(char \<Rightarrow> char) \<Rightarrow> (string \<Rightarrow> (string \<Rightarrow> bool) option) \<Rightarrow> string \<Rightarrow> (string \<Rightarrow> bool) option" where
  "regex_i casefold other q =
     (if CHR 0x00 \<in> set q then None
      else
        (case parse_atoms q of
           Some as \<Rightarrow> Some (match_anywhere casefold as)
         | None \<Rightarrow> other q))"

definition searchItems ::
  "(char \<Rightarrow> char) \<Rightarrow> (string \<Rightarrow> (string \<Rightarrow> bool) option) \<Rightarrow> db \<Rightarrow> string option
     \<Rightarrow> response \<times> db" where
  "searchItems casefold other d q =
     (case q of
        None \<Rightarrow> (InternalError, d)
      | Some pattern \<Rightarrow>
          (case regex_i casefold other pattern of
             None \<Rightarrow> (InternalError, d)
           | Some m \<Rightarrow> ((200, ItemList (filter (\<lambda>it. m (title it)) (items d))), d)))"

subsection \<open>Requests and runs\<close>

text \<open>The library functions the handlers call.\<close>

record lib =
  Date_parse :: "string \<Rightarrow> int option"
  Number :: "string \<Rightarrow> jsnum"
  bcrypt_hash :: "string \<Rightarrow> string \<Rightarrow> nat \<Rightarrow> string"
  bcrypt_compare :: "string \<Rightarrow> string \<Rightarrow> bool"
  regex_fold :: "char \<Rightarrow> char"
  regex_other :: "string \<Rightarrow> (string \<Rightarrow> bool) option"

text \<open>A request to one of the seven routes, with what the environment supplies to it: the
  salt for \<open>Register\<close>, the generated ObjectId and the clock for \<open>AddItem\<close>.\<close>

datatype request =
    Register string "string option" "string option"
  | Login "string option" "jsval option"
  | AddItem oid int "string option" "string option" "rat option" "string option"
      "string option" "string option"
  | ListItems "string option" "string option" "string option" "string option" "string option"
  | SearchItems "string option"
  | BookItem oid "string option" "string option"
  | ReturnItem oid

fun handle :: "lib \<Rightarrow> db \<Rightarrow> request \<Rightarrow> response \<times> db" where
  "handle L d (Register salt e p) = register (bcrypt_hash L) salt d e p"
| "handle L d (Login e p) = login (bcrypt_compare L) d e p"
| "handle L d (AddItem new_id now t ds p c im ow) = addItem new_id now d t ds p c im ow"
| "handle L d (ListItems c mn mx a ow) = listItems (Number L) d c mn mx a ow"
| "handle L d (SearchItems q) = searchItems (regex_fold L) (regex_other L) d q"
| "handle L d (BookItem i s e) = bookItem (Date_parse L) d i s e"
| "handle L d (ReturnItem i) = returnItem d i"

definition step :: "lib \<Rightarrow> db \<Rightarrow> request \<Rightarrow> db" where
  "step L d r = snd (handle L d r)"

definition run :: "lib \<Rightarrow> request list \<Rightarrow> db" where
  "run L rs = foldl (step L) empty_db rs"

definition success :: "response \<Rightarrow> bool" where
  "success r = (fst r = 200 \<or> fst r = 201)"

definition failures :: "response list" where
  "failures = [ValidationError_user, ValidationError_item, DuplicateError, AuthError, NotFoundError,
               ConflictError, InternalError]"

text \<open>The invariant of an item: rented with both dates set, or available with neither.\<close>

definition item_inv :: "item \<Rightarrow> bool" where
  "item_inv it =
     ((\<not> available it \<longrightarrow> is_set (rentedFrom it) \<and> is_set (rentedTill it)) \<and>
      (available it \<longrightarrow> \<not> is_set (rentedFrom it) \<and> \<not> is_set (rentedTill it)))"

subsection \<open>The specification's wording\<close>

text \<open>"Returns exactly the items satisfying every supplied filter field": a field that is
  supplied constrains the item, whatever its value.\<close>

fun supplied_eq :: "string option \<Rightarrow> string \<Rightarrow> bool" where
  "supplied_eq None v = True"
| "supplied_eq (Some x) v = (v = x)"

fun supplied_available :: "string option \<Rightarrow> bool \<Rightarrow> bool" where
  "supplied_available None b = True"
| "supplied_available (Some a) b = (b = (a = ''true''))"

fun supplied_min :: "(string \<Rightarrow> jsnum) \<Rightarrow> string option \<Rightarrow> rat \<Rightarrow> bool" where
  "supplied_min N None p = True"
| "supplied_min N (Some s) p = num_le_price (N s) p"

fun supplied_max :: "(string \<Rightarrow> jsnum) \<Rightarrow> string option \<Rightarrow> rat \<Rightarrow> bool" where
  "supplied_max N None p = True"
| "supplied_max N (Some s) p = price_le_num p (N s)"

definition satisfies_supplied ::
  "(string \<Rightarrow> jsnum) \<Rightarrow> string option \<Rightarrow> string option \<Rightarrow> string option \<Rightarrow> string option
     \<Rightarrow> string option \<Rightarrow> item \<Rightarrow> bool" where
  "satisfies_supplied N c mn mx a ow it =
     (supplied_eq c (category it) \<and> supplied_min N mn (pricePerDay it) \<and>
      supplied_max N mx (pricePerDay it) \<and> supplied_available a (available it) \<and>
      supplied_eq ow (ownerEmail it))"

text \<open>The same, with an empty string counted as not supplied for category, owner e-mail and
  the two price bounds. \<open>available\<close> constrains whenever it is present.\<close>

fun nonempty_eq :: "string option \<Rightarrow> string \<Rightarrow> bool" where
  "nonempty_eq None v = True"
| "nonempty_eq (Some x) v = (x = [] \<or> v = x)"

fun nonempty_min :: "(string \<Rightarrow> jsnum) \<Rightarrow> string option \<Rightarrow> rat \<Rightarrow> bool" where
  "nonempty_min N None p = True"
| "nonempty_min N (Some s) p = (s = [] \<or> num_le_price (N s) p)"

fun nonempty_max :: "(string \<Rightarrow> jsnum) \<Rightarrow> string option \<Rightarrow> rat \<Rightarrow> bool" where
  "nonempty_max N None p = True"
| "nonempty_max N (Some s) p = (s = [] \<or> price_le_num p (N s))"

definition satisfies_nonempty ::
  "(string \<Rightarrow> jsnum) \<Rightarrow> string option \<Rightarrow> string option \<Rightarrow> string option \<Rightarrow> string option
     \<Rightarrow> string option \<Rightarrow> item \<Rightarrow> bool" where
  "satisfies_nonempty N c mn mx a ow it =
     (nonempty_eq c (category it) \<and> nonempty_min N mn (pricePerDay it) \<and>
      nonempty_max N mx (pricePerDay it) \<and> supplied_available a (available it) \<and>
      nonempty_eq ow (ownerEmail it))"

text \<open>A price bound that is supplied, not empty, and not a number.\<close>

fun not_a_number :: "(string \<Rightarrow> jsnum) \<Rightarrow> string option \<Rightarrow> bool" where
  "not_a_number N None = False"
| "not_a_number N (Some s) = (s \<noteq> [] \<and> N s = NaN)"

text \<open>"The title contains the query as a substring, compared case-insensitively."\<close>

definition contains_ci :: "(char \<Rightarrow> char) \<Rightarrow> string \<Rightarrow> string \<Rightarrow> bool" where
  "contains_ci casefold q t = sublist (map casefold q) (map casefold t)"

subsection \<open>Example data\<close>

text \<open>The example flow of the specification: a ladder at 10 a day, booked from 2024-01-01
  to 2024-01-05. \<open>example_parse\<close>, \<open>example_Number\<close> and \<open>example_objectId\<close> give the
  values of \<open>Date.parse\<close>, of \<open>Number\<close> and of the cast to an ObjectId on the strings the
  examples use; the words \<open>soon\<close> and \<open>tomorrow\<close> are not dates, \<open>cheap\<close> is not a
  number, and \<open>abc\<close> is not an ObjectId, which is written as 24 hexadecimal digits.
  \<open>example_compare\<close> stands in for \<open>bcrypt.compare\<close> on the one stored hash of the
  examples, which it takes to be the hash of the password \<open>secret\<close>.\<close>

definition ladder :: item where
  "ladder = \<lparr>item_id = 1, title = ''Ladder'', description = None, pricePerDay = 10,
             category = ''tools'', imageUrl = None, available = True, ownerEmail = ''a@x.com'',
             rentedFrom = None, rentedTill = None, createdAt = 1700000000000\<rparr>"

definition drill :: item where
  "drill = \<lparr>item_id = 2, title = ''Power Drill'', description = Some ''18V, two batteries'',
            pricePerDay = 25, category = ''tools'', imageUrl = None, available = True,
            ownerEmail = ''b@x.com'', rentedFrom = None, rentedTill = None,
            createdAt = 1700000100000\<rparr>"

definition kit :: item where
  "kit = \<lparr>item_id = 3, title = ''DRILLING kit'', description = None, pricePerDay = 15,
          category = ''camping'', imageUrl = None, available = True, ownerEmail = ''a@x.com'',
          rentedFrom = None, rentedTill = None, createdAt = 1700000200000\<rparr>"

definition ladder_rented :: item where
  "ladder_rented =
     ladder\<lparr>available := False, rentedFrom := Some 1704067200000,
            rentedTill := Some 1704412800000\<rparr>"

definition example_parse :: "string \<Rightarrow> int option" where
  "example_parse s =
     (if s = ''2024-01-01'' then Some 1704067200000
      else if s = ''2024-01-05'' then Some 1704412800000
      else None)"

definition example_Number :: "string \<Rightarrow> jsnum" where
  "example_Number s =
     (if s = ''5'' then Num 5 else if s = ''20'' then Num 20
      else if s = ''Infinity'' then Infinity else NaN)"

definition example_objectId :: "string \<Rightarrow> oid option" where
  "example_objectId s =
     (if s = ''000000000000000000000001'' then Some 1
      else if s = ''000000000000000000000007'' then Some 7
      else None)"

definition example_compare :: "string \<Rightarrow> string \<Rightarrow> bool" where
  "example_compare p h = (h = ''$2a$08$'' @ p)"

definition example_lib :: lib where
  "example_lib =
     \<lparr>Date_parse = example_parse, Number = example_Number,
      bcrypt_hash = (\<lambda>salt p rounds. ''$2a$08$'' @ p),
      bcrypt_compare = example_compare,
      regex_fold = lower,
      regex_other = (\<lambda>q. None)\<rparr>"

definition catalog :: db where
  "catalog = \<lparr>users = [\<lparr>email = ''a@x.com'', password = ''$2a$08$secret''\<rparr>],
              items = [ladder, drill, kit]\<rparr>"

definition ladder_only :: db where
  "ladder_only = \<lparr>users = [], items = [ladder]\<rparr>"

definition rented_only :: db where
  "rented_only = \<lparr>users = [], items = [ladder_rented]\<rparr>"

section \<open>Properties\<close>

lemma find_map_same_id:
  assumes "item_id it' = i"
  shows "find (\<lambda>x. item_id x = j) (map (\<lambda>x. if item_id x = i then it' else x) xs)
         = map_option (\<lambda>x. if item_id x = i then it' else x) (find (\<lambda>x. item_id x = j) xs)"
  using assms by (induction xs) auto

lemma findById_save:
  "findById (save d it') j = map_option (\<lambda>x. if item_id x = item_id it' then it' else x) (findById d j)"
  by (simp add: findById_def save_def find_map_same_id)

lemma findById_item_id: "findById d i = Some it \<Longrightarrow> item_id it = i"
  by (auto simp: findById_def find_Some_iff)


lemma findById_save_same:
  "findById d i = Some it \<Longrightarrow> item_id it' = i \<Longrightarrow> findById (save d it') i = Some it'"
  by (auto simp: findById_save dest: findById_item_id)

lemma findById_save_other:
  "item_id it' \<noteq> j \<Longrightarrow> findById (save d it') j = findById d j"
  by (cases "findById d j") (auto simp: findById_save dest: findById_item_id)

lemma returnItem_result:
  "(findById d i = None \<longrightarrow> returnItem d i = (NotFoundError, d)) \<and>
   (\<forall>it. findById d i = Some it \<longrightarrow>
      fst (returnItem d i) = (200, Msg ''Item returned successfully'') \<and>
      findById (snd (returnItem d i)) i
        = Some (it\<lparr>available := True, rentedFrom := None, rentedTill := None\<rparr>))"
  by (auto simp: returnItem_def findById_save dest: findById_item_id)

text \<open>
  C3, as amended. For every call of \<open>returnItem\<close> whose identifier is a well-formed
  ObjectId: on an identifier that no item has it answers \<open>NotFoundError\<close> and leaves the
  database as it was; on an identifier that an item has it answers success, and afterwards
  the item is available with both rental dates cleared. There is no condition on the
  item's state before: returning an item that is already available succeeds all the same.
\<close>

theorem post_return_spec:
  assumes "objectId ident = Some i"
  shows "(findById d i = None \<longrightarrow> post_return objectId d ident = (NotFoundError, d)) \<and>
   (\<forall>it. findById d i = Some it \<longrightarrow>
      fst (post_return objectId d ident) = (200, Msg ''Item returned successfully'') \<and>
      findById (snd (post_return objectId d ident)) i
        = Some (it\<lparr>available := True, rentedFrom := None, rentedTill := None\<rparr>))"
proof -
  have eq: "post_return objectId d ident = returnItem d i"
    using assms by (simp add: post_return_def)
  show ?thesis unfolding eq by (rule returnItem_result)
qed

theorem post_return_spec_witness:
  "example_objectId ''000000000000000000000001'' = Some 1 \<and>
   findById rented_only 1 = Some ladder_rented \<and> \<not> available ladder_rented \<and>
   rentedFrom ladder_rented = Some 1704067200000 \<and>
   fst (post_return example_objectId rented_only ''000000000000000000000001'')
     = (200, Msg ''Item returned successfully'') \<and>
   findById (snd (post_return example_objectId rented_only ''000000000000000000000001'')) 1
     = Some ladder \<and>
   available ladder \<and> rentedFrom ladder = None \<and> rentedTill ladder = None \<and>
   findById ladder_only 1 = Some ladder \<and>
   fst (post_return example_objectId ladder_only ''000000000000000000000001'')
     = (200, Msg ''Item returned successfully'') \<and>
   example_objectId ''000000000000000000000007'' = Some 7 \<and>
   findById rented_only 7 = None \<and>
   post_return example_objectId rented_only ''000000000000000000000007''
     = (NotFoundError, rented_only)"
  using post_return_spec [of example_objectId "''000000000000000000000001''" 1 rented_only]
    post_return_spec [of example_objectId "''000000000000000000000001''" 1 ladder_only]
    post_return_spec [of example_objectId "''000000000000000000000007''" 7 rented_only]
  by (simp add: example_objectId_def rented_only_def ladder_only_def ladder_rented_def ladder_def
      findById_def)

text \<open>
  C3 as stated has \<open>NotFoundError\<close> for every identifier that no item has. The identifier
  \<open>abc\<close> is no ObjectId, so no item has it; \<open>Item.findById\<close> rejects it with a
  \<open>CastError\<close> and the handler answers \<open>InternalError\<close>.
\<close>

theorem post_return_malformed_counterexample:
  "example_objectId ''abc'' = None \<and>
   post_return example_objectId ladder_only ''abc'' = (InternalError, ladder_only)"
  by (simp add: example_objectId_def post_return_def)

lemma bookItem_success:
  assumes "findById d i = Some it" "available it" "Date_new parse s = Date f" "Date_new parse e = Date t"
  shows "bookItem parse d i s e =
           ((200, Msg ''Item booked successfully''),
            save d (it\<lparr>available := False, rentedFrom := Some f, rentedTill := Some t\<rparr>))"
  using assms by (simp add: bookItem_def)

lemma bookItem_conflict:
  "findById d i = Some it \<Longrightarrow> \<not> available it \<Longrightarrow> bookItem parse d i s e = (ConflictError, d)"
  by (simp add: bookItem_def)

lemma bookItem_invalid:
  "findById d i = Some it \<Longrightarrow> available it \<Longrightarrow>
   Date_new parse s = InvalidDate \<or> Date_new parse e = InvalidDate \<Longrightarrow>
   bookItem parse d i s e = (InternalError, d)"
  by (cases "Date_new parse s"; cases "Date_new parse e") (auto simp: bookItem_def)

text \<open>
  C5, as amended. \<open>bookItem\<close> does not compare its two dates: on an available item, for
  every pair of strings that both parse as dates, the call succeeds, whichever date is the
  earlier, and stores the two parsed times. A string that does not parse as a date is not
  stored: the call answers \<open>InternalError\<close> and the database is as it was.
\<close>

theorem bookItem_dates:
  "\<forall>it. findById d i = Some it \<and> available it \<longrightarrow>
     (\<forall>f t. parse s = Some f \<and> parse e = Some t \<longrightarrow>
        fst (bookItem parse d i (Some s) (Some e)) = (200, Msg ''Item booked successfully'') \<and>
        findById (snd (bookItem parse d i (Some s) (Some e))) i
          = Some (it\<lparr>available := False, rentedFrom := Some f, rentedTill := Some t\<rparr>)) \<and>
     (parse s = None \<or> parse e = None \<longrightarrow>
        bookItem parse d i (Some s) (Some e) = (InternalError, d))"
proof (intro allI impI conjI)
  fix it f t
  assume a: "findById d i = Some it \<and> available it" and p: "parse s = Some f \<and> parse e = Some t"
  let ?it' = "it\<lparr>available := False, rentedFrom := Some f, rentedTill := Some t\<rparr>"
  have b: "bookItem parse d i (Some s) (Some e)
             = ((200, Msg ''Item booked successfully''), save d ?it')"
    using a p by (simp add: bookItem_success)
  show "fst (bookItem parse d i (Some s) (Some e)) = (200, Msg ''Item booked successfully'')"
    by (simp add: b)
  have "item_id ?it' = i" using a by (auto dest: findById_item_id)
  then show "findById (snd (bookItem parse d i (Some s) (Some e))) i = Some ?it'"
    using a by (simp add: b findById_save_same)
next
  fix it
  assume a: "findById d i = Some it \<and> available it" and p: "parse s = None \<or> parse e = None"
  from p have "Date_new parse (Some s) = InvalidDate \<or> Date_new parse (Some e) = InvalidDate"
    by auto
  with a show "bookItem parse d i (Some s) (Some e) = (InternalError, d)"
    by (simp add: bookItem_invalid)
qed

theorem bookItem_dates_witness:
  "findById ladder_only 1 = Some ladder \<and> available ladder \<and>
   example_parse ''2024-01-05'' = Some 1704412800000 \<and>
   example_parse ''2024-01-01'' = Some 1704067200000 \<and>
   fst (bookItem example_parse ladder_only 1 (Some ''2024-01-05'') (Some ''2024-01-01''))
     = (200, Msg ''Item booked successfully'') \<and>
   findById (snd (bookItem example_parse ladder_only 1 (Some ''2024-01-05'') (Some ''2024-01-01''))) 1
     = Some (ladder\<lparr>available := False, rentedFrom := Some 1704412800000,
                     rentedTill := Some 1704067200000\<rparr>) \<and>
   example_parse ''soon'' = None \<and>
   bookItem example_parse ladder_only 1 (Some ''soon'') (Some ''2024-01-01'')
     = (InternalError, ladder_only)"
  using bookItem_dates [of ladder_only 1 example_parse "''2024-01-05''" "''2024-01-01''"]
    bookItem_dates [of ladder_only 1 example_parse "''soon''" "''2024-01-01''"]
  by (simp add: ladder_only_def ladder_def findById_def example_parse_def)

text \<open>
  C5 as stated has every pair of strings accepted and stored as they are. With the end date
  \<open>tomorrow\<close> the call on the available ladder answers \<open>InternalError\<close>, and the ladder's
  \<open>rentedTill\<close> is still unset.
\<close>

theorem bookItem_invalid_date_counterexample:
  "findById ladder_only 1 = Some ladder \<and> available ladder \<and>
   fst (bookItem example_parse ladder_only 1 (Some ''2024-01-01'') (Some ''tomorrow''))
     = InternalError \<and>
   map rentedTill
     (items (snd (bookItem example_parse ladder_only 1 (Some ''2024-01-01'') (Some ''tomorrow''))))
     = [None]"
  by (simp add: ladder_only_def ladder_def findById_def example_parse_def bookItem_def)



lemma bookItem_ok_cases:
  assumes f: "findById d i = Some it"
    and ok: "fst (bookItem parse d i s e) = (200, Msg ''Item booked successfully'')"
  shows "\<exists>f t. available it \<and> Date_new parse s = Date f \<and> Date_new parse e = Date t"
proof (cases "available it")
  case False
  with f ok show ?thesis by (simp add: bookItem_conflict)
next
  case True
  show ?thesis
  proof (cases "Date_new parse s")
    case InvalidDate
    with f True ok show ?thesis by (simp add: bookItem_invalid)
  next
    case (Date f1)
    show ?thesis
    proof (cases "Date_new parse e")
      case InvalidDate
      with f True ok show ?thesis by (simp add: bookItem_invalid)
    next
      case (Date t1)
      with True \<open>Date_new parse s = Date f1\<close> show ?thesis by simp
    qed
  qed
qed

text \<open>
  C10. A successful \<open>bookItem\<close> or \<open>returnItem\<close> on an item leaves its identifier, title,
  description, price per day, category, image URL, owner e-mail and creation time as they
  were.
\<close>

theorem book_return_frame:
  assumes f: "findById d i = Some it"
    and ok: "bookItem parse d i s e = ((200, Msg ''Item booked successfully''), d') \<or>
             returnItem d i = ((200, Msg ''Item returned successfully''), d')"
    and f': "findById d' i = Some it'"
  shows "item_id it' = item_id it \<and> title it' = title it \<and> description it' = description it \<and>
      pricePerDay it' = pricePerDay it \<and> category it' = category it \<and>
      imageUrl it' = imageUrl it \<and> ownerEmail it' = ownerEmail it \<and>
      createdAt it' = createdAt it"
proof -
  have id: "item_id it = i" using f by (rule findById_item_id)
  from ok consider
    (book) "bookItem parse d i s e = ((200, Msg ''Item booked successfully''), d')"
  | (return) "returnItem d i = ((200, Msg ''Item returned successfully''), d')"
    by blast
  then have "\<exists>a f t. it' = it\<lparr>available := a, rentedFrom := f, rentedTill := t\<rparr>"
  proof cases
    case book
    then have "fst (bookItem parse d i s e) = (200, Msg ''Item booked successfully'')"
      by simp
    from bookItem_ok_cases [OF f this] obtain f1 t1 where
      v: "available it" "Date_new parse s = Date f1" "Date_new parse e = Date t1"
      by blast
    let ?n = "it\<lparr>available := False, rentedFrom := Some f1, rentedTill := Some t1\<rparr>"
    have "d' = save d ?n"
      using f v book by (simp add: bookItem_success)
    moreover have "findById (save d ?n) i = Some ?n"
      using f id by (simp add: findById_save_same)
    ultimately have "it' = ?n" using f' by simp
    then show ?thesis by blast
  next
    case return
    let ?n = "it\<lparr>available := True, rentedFrom := None, rentedTill := None\<rparr>"
    have "d' = save d ?n"
      using f return by (simp add: returnItem_def)
    moreover have "findById (save d ?n) i = Some ?n"
      using f id by (simp add: findById_save_same)
    ultimately have "it' = ?n" using f' by simp
    then show ?thesis by blast
  qed
  then obtain a1 f1 t1 where "it' = it\<lparr>available := a1, rentedFrom := f1, rentedTill := t1\<rparr>"
    by blast
  then show ?thesis by simp
qed

theorem book_return_frame_witness:
  "findById ladder_only 1 = Some ladder \<and>
   bookItem example_parse ladder_only 1 (Some ''2024-01-01'') (Some ''2024-01-05'')
     = ((200, Msg ''Item booked successfully''), \<lparr>users = [], items = [ladder_rented]\<rparr>) \<and>
   findById \<lparr>users = [], items = [ladder_rented]\<rparr> 1 = Some ladder_rented \<and>
   item_id ladder_rented = item_id ladder \<and> title ladder_rented = title ladder \<and>
   description ladder_rented = description ladder \<and>
   pricePerDay ladder_rented = pricePerDay ladder \<and> category ladder_rented = category ladder \<and>
   imageUrl ladder_rented = imageUrl ladder \<and> ownerEmail ladder_rented = ownerEmail ladder \<and>
   createdAt ladder_rented = createdAt ladder"
  using book_return_frame [of ladder_only 1 ladder example_parse "Some ''2024-01-01''"
      "Some ''2024-01-05''" "\<lparr>users = [], items = [ladder_rented]\<rparr>" ladder_rented]
  by (simp add: ladder_only_def ladder_def ladder_rented_def findById_def example_parse_def
      bookItem_def save_def)





lemma register_outcome:
  "(success (fst (register h salt d e p)) \<or> fst (register h salt d e p) \<in> set failures) \<and>
   (fst (register h salt d e p) \<in> set failures \<longrightarrow> snd (register h salt d e p) = d)"
  by (cases e; cases p; cases "findOne d (the e)")
     (simp_all add: register_def success_def failures_def)

lemma verify_outcome:
  "success (verify c d e p) \<or> verify c d e p \<in> set failures"
  by (cases "findOne d e"; cases p)
     (simp_all add: verify_def success_def failures_def)

lemma login_outcome:
  "(success (fst (login c d e p)) \<or> fst (login c d e p) \<in> set failures) \<and>
   snd (login c d e p) = d"
proof (cases "\<not> truthy e \<or> \<not> truthy_val p")
  case True
  then show ?thesis by (simp add: login_def success_def failures_def)
next
  case False
  then obtain ev pv where "e = Some ev" "p = Some pv"
    by (cases e; cases p) auto
  with False show ?thesis
    using verify_outcome [of c d ev pv] by (simp add: login_def)
qed

lemma addItem_outcome:
  "(success (fst (addItem n now d t ds p c im ow)) \<or>
      fst (addItem n now d t ds p c im ow) \<in> set failures) \<and>
   (fst (addItem n now d t ds p c im ow) \<in> set failures \<longrightarrow>
      snd (addItem n now d t ds p c im ow) = d)"
  by (cases t; cases p; cases c; cases ow)
     (simp_all add: addItem_def insert_item_def success_def failures_def)

lemma listItems_outcome:
  "(success (fst (listItems N d c mn mx a ow)) \<or> fst (listItems N d c mn mx a ow) \<in> set failures) \<and>
   snd (listItems N d c mn mx a ow) = d"
  by (cases "Item_find (make_filter N c mn mx a ow) d")
     (simp_all add: listItems_def success_def failures_def)

lemma searchItems_outcome:
  "(success (fst (searchItems f other d q)) \<or> fst (searchItems f other d q) \<in> set failures) \<and>
   snd (searchItems f other d q) = d"
  by (cases q; cases "regex_i f other (the q)")
     (simp_all add: searchItems_def success_def failures_def)

lemma bookItem_outcome:
  "(success (fst (bookItem parse d i s e)) \<or> fst (bookItem parse d i s e) \<in> set failures) \<and>
   (fst (bookItem parse d i s e) \<in> set failures \<longrightarrow> snd (bookItem parse d i s e) = d)"
  by (cases "findById d i"; cases "Date_new parse s"; cases "Date_new parse e")
     (simp_all add: bookItem_def success_def failures_def)

lemma returnItem_outcome:
  "(success (fst (returnItem d i)) \<or> fst (returnItem d i) \<in> set failures) \<and>
   (fst (returnItem d i) \<in> set failures \<longrightarrow> snd (returnItem d i) = d)"
  by (cases "findById d i") (simp_all add: returnItem_def success_def failures_def)

lemma failures_not_success: "r \<in> set failures \<Longrightarrow> \<not> success r"
  by (auto simp: failures_def success_def)

lemma handle_outcome:
  "(success (fst (handle L d r)) \<or> fst (handle L d r) \<in> set failures) \<and>
   (fst (handle L d r) \<in> set failures \<longrightarrow> snd (handle L d r) = d)"
proof (cases r)
  case (Register salt e p)
  then show ?thesis using register_outcome by simp
next
  case (Login e p)
  then show ?thesis using login_outcome by simp
next
  case (AddItem n now t ds p c im ow)
  then show ?thesis using addItem_outcome by simp
next
  case (ListItems c mn mx a ow)
  then show ?thesis using listItems_outcome by simp
next
  case (SearchItems q)
  then show ?thesis using searchItems_outcome by simp
next
  case (BookItem i s e)
  then show ?thesis using bookItem_outcome by simp
next
  case (ReturnItem i)
  then show ?thesis using returnItem_outcome by simp
qed

text \<open>
  C9. Every request to one of the seven routes is answered with a success (200 or 201) or
  with one of the failure responses, never both, and a request that is not answered with
  a success leaves the database as it was.
\<close>

theorem failed_request_persists_nothing:
  "(success (fst (handle L d r)) \<or> fst (handle L d r) \<in> set failures) \<and>
   \<not> (success (fst (handle L d r)) \<and> fst (handle L d r) \<in> set failures) \<and>
   (\<not> success (fst (handle L d r)) \<longrightarrow> snd (handle L d r) = d)"
  using handle_outcome [of L d r] failures_not_success [of "fst (handle L d r)"] by blast


theorem failed_request_persists_nothing_witness:
  "\<not> success (fst (handle example_lib ladder_only (BookItem 7 (Some ''2024-01-01'') (Some ''2024-01-05'')))) \<and>
   fst (handle example_lib ladder_only (BookItem 7 (Some ''2024-01-01'') (Some ''2024-01-05'')))
     = NotFoundError \<and>
   snd (handle example_lib ladder_only (BookItem 7 (Some ''2024-01-01'') (Some ''2024-01-05'')))
     = ladder_only \<and>
   \<not> success (fst (handle example_lib ladder_only (BookItem 1 (Some ''soon'') None))) \<and>
   snd (handle example_lib ladder_only (BookItem 1 (Some ''soon'') None)) = ladder_only"
  using failed_request_persists_nothing [of example_lib ladder_only
      "BookItem 7 (Some ''2024-01-01'') (Some ''2024-01-05'')"]
    failed_request_persists_nothing [of example_lib ladder_only "BookItem 1 (Some ''soon'') None"]
  by (simp add: ladder_only_def ladder_def findById_def bookItem_def success_def example_lib_def
      example_parse_def)

lemma addItem_missing:
  "fst (addItem n now d t ds p c im ow) = ValidationError_item \<longleftrightarrow>
     \<not> truthy t \<or> \<not> truthy_num p \<or> \<not> truthy c \<or> \<not> truthy ow"
  by (cases t; cases p; cases c; cases ow) (simp_all add: addItem_def insert_item_def)

lemma addItem_result:
  assumes "t = Some tv" "tv \<noteq> []" "p = Some pv" "pv \<noteq> 0" "c = Some cv" "cv \<noteq> []"
    "ow = Some owv" "owv \<noteq> []"
  shows "addItem n now d t ds p c im ow =
     (if n \<in> item_id ` set (items d) then (InternalError, d)
      else ((201, MsgItemId ''Item added successfully'' n),
            d\<lparr>items := items d @
               [\<lparr>item_id = n, title = tv, description = ds, pricePerDay = pv, category = cv,
                 imageUrl = im, available = True, ownerEmail = owv, rentedFrom = None,
                 rentedTill = None, createdAt = now\<rparr>]\<rparr>))"
  using assms by (simp add: addItem_def insert_item_def)

lemma truthy_iff: "truthy x \<longleftrightarrow> (\<exists>v. x = Some v \<and> v \<noteq> [])"
  by (cases x) auto

lemma truthy_num_iff: "truthy_num x \<longleftrightarrow> (\<exists>v. x = Some v \<and> v \<noteq> 0)"
  by (cases x) auto

text \<open>
  C4, as amended. For a request whose price per day is not 0, \<open>addItem\<close> answers
  \<open>ValidationError\<close> (\<open>Missing required fields\<close>) exactly when title, category or owner
  e-mail is absent or the empty string, or the price per day is absent, and it then adds
  nothing. With all four present, not empty and not zero, and a fresh identifier, it
  succeeds. When it succeeds it has added exactly one record, which is available, has
  \<open>createdAt\<close> at the creation time, both rental dates unset and the fields of the request,
  and it returns the new record's identifier.
\<close>

theorem addItem_spec:
  "(p \<noteq> Some 0 \<longrightarrow>
      (fst (addItem n now d t ds p c im ow) = ValidationError_item \<longleftrightarrow>
         t = None \<or> t = Some [] \<or> p = None \<or> c = None \<or> c = Some [] \<or>
         ow = None \<or> ow = Some [])) \<and>
   (fst (addItem n now d t ds p c im ow) = ValidationError_item \<longrightarrow>
      snd (addItem n now d t ds p c im ow) = d) \<and>
   (truthy t \<and> truthy_num p \<and> truthy c \<and> truthy ow \<and> n \<notin> item_id ` set (items d) \<longrightarrow>
      success (fst (addItem n now d t ds p c im ow))) \<and>
   (success (fst (addItem n now d t ds p c im ow)) \<longrightarrow>
      fst (addItem n now d t ds p c im ow) = (201, MsgItemId ''Item added successfully'' n) \<and>
      n \<notin> item_id ` set (items d) \<and>
      (\<exists>it. snd (addItem n now d t ds p c im ow) = d\<lparr>items := items d @ [it]\<rparr> \<and>
            item_id it = n \<and> available it \<and> createdAt it = now \<and>
            rentedFrom it = None \<and> rentedTill it = None \<and>
            Some (title it) = t \<and> description it = ds \<and> Some (pricePerDay it) = p \<and>
            Some (category it) = c \<and> imageUrl it = im \<and> Some (ownerEmail it) = ow))"
proof (intro conjI impI)
  assume "p \<noteq> Some 0"
  then show "fst (addItem n now d t ds p c im ow) = ValidationError_item \<longleftrightarrow>
      t = None \<or> t = Some [] \<or> p = None \<or> c = None \<or> c = Some [] \<or>
      ow = None \<or> ow = Some []"
    unfolding addItem_missing truthy_iff truthy_num_iff by (cases t; cases p; cases c; cases ow) auto
next
  assume "fst (addItem n now d t ds p c im ow) = ValidationError_item"
  then show "snd (addItem n now d t ds p c im ow) = d"
    using addItem_outcome [of n now d t ds p c im ow] by (simp add: failures_def)
next
  assume a: "truthy t \<and> truthy_num p \<and> truthy c \<and> truthy ow \<and> n \<notin> item_id ` set (items d)"
  then obtain tv pv cv owv where
    v: "t = Some tv" "tv \<noteq> []" "p = Some pv" "pv \<noteq> 0" "c = Some cv" "cv \<noteq> []"
       "ow = Some owv" "owv \<noteq> []"
    unfolding truthy_iff truthy_num_iff by blast
  show "success (fst (addItem n now d t ds p c im ow))"
    unfolding addItem_result [OF v, of n now d ds im] using a by (simp add: success_def)
next
  assume ok: "success (fst (addItem n now d t ds p c im ow))"
  then have "fst (addItem n now d t ds p c im ow) \<noteq> ValidationError_item"
    by (auto simp: success_def)
  then have "truthy t \<and> truthy_num p \<and> truthy c \<and> truthy ow"
    by (simp add: addItem_missing)
  then obtain tv pv cv owv where
    v: "t = Some tv" "tv \<noteq> []" "p = Some pv" "pv \<noteq> 0" "c = Some cv" "cv \<noteq> []"
       "ow = Some owv" "owv \<noteq> []"
    unfolding truthy_iff truthy_num_iff by blast
  note r = addItem_result [OF v, of n now d ds im]
  have fresh: "n \<notin> item_id ` set (items d)"
    using ok unfolding r by (auto simp: success_def split: if_splits)
  then show "n \<notin> item_id ` set (items d)" .
  show "fst (addItem n now d t ds p c im ow) = (201, MsgItemId ''Item added successfully'' n)"
    unfolding r using fresh by simp
  show "\<exists>it. snd (addItem n now d t ds p c im ow) = d\<lparr>items := items d @ [it]\<rparr> \<and>
            item_id it = n \<and> available it \<and> createdAt it = now \<and>
            rentedFrom it = None \<and> rentedTill it = None \<and>
            Some (title it) = t \<and> description it = ds \<and> Some (pricePerDay it) = p \<and>
            Some (category it) = c \<and> imageUrl it = im \<and> Some (ownerEmail it) = ow"
    unfolding r using fresh v
    by (intro exI [of _ "\<lparr>item_id = n, title = tv, description = ds, pricePerDay = pv,
          category = cv, imageUrl = im, available = True, ownerEmail = owv,
          rentedFrom = None, rentedTill = None, createdAt = now\<rparr>"]) simp
qed

theorem addItem_spec_witness:
  "truthy (Some ''Ladder'') \<and> truthy_num (Some 10) \<and> truthy (Some ''tools'') \<and>
   truthy (Some ''a@x.com'') \<and> 1 \<notin> item_id ` set (items empty_db) \<and>
   success (fst (addItem 1 1700000000000 empty_db (Some ''Ladder'') None (Some 10) (Some ''tools'')
       None (Some ''a@x.com''))) \<and>
   addItem 1 1700000000000 empty_db (Some ''Ladder'') None (Some 10) (Some ''tools'') None
       (Some ''a@x.com'')
     = ((201, MsgItemId ''Item added successfully'' 1), ladder_only) \<and>
   addItem 4 1700000300000 ladder_only (Some ''Tent'') None None (Some ''camping'') None
       (Some ''a@x.com'')
     = (ValidationError_item, ladder_only)"
  using addItem_spec [of "Some 10" 1 1700000000000 empty_db "Some ''Ladder''" None "Some ''tools''"
      None "Some ''a@x.com''"]
    addItem_spec [of None 4 1700000300000 ladder_only "Some ''Tent''" None "Some ''camping''"
      None "Some ''a@x.com''"]
  by (simp add: addItem_def insert_item_def empty_db_def ladder_only_def ladder_def success_def)

text \<open>
  C4 as stated has \<open>ValidationError\<close> only when a required field is missing. Two requests
  that supply all four fields, one with the empty string as category and one with a price
  of 0 a day, are both answered \<open>Missing required fields\<close>, and nothing is added.
\<close>

theorem addItem_supplied_counterexample:
  "addItem 4 1700000300000 ladder_only (Some ''Tent'') None (Some 12) (Some '''') None
       (Some ''a@x.com'')
     = (ValidationError_item, ladder_only) \<and>
   addItem 4 1700000300000 ladder_only (Some ''Free box'') None (Some 0) (Some ''misc'') None
       (Some ''a@x.com'')
     = (ValidationError_item, ladder_only)"
  by (simp add: addItem_def)

lemma eq_cond [simp]:
  "(case (if truthy c then c else None) of None \<Rightarrow> True | Some v \<Rightarrow> x = v) = nonempty_eq c x"
  by (cases c) auto

lemma avail_cond [simp]:
  "(case (case a of None \<Rightarrow> None | Some s \<Rightarrow> Some (s = ''true'')) of None \<Rightarrow> True | Some b \<Rightarrow> y = b)
     = supplied_available a y"
  by (cases a) auto


lemma cast_bound_of_None: "cast_bound (bound_of N m) = None \<longleftrightarrow> not_a_number N m"
  by (cases m; cases "N (the m)") (auto simp: bound_of_def)

lemma ge_bound_of:
  "cast_bound (bound_of N m) = Some lo \<Longrightarrow> ge_bound lo p = nonempty_min N m p"
  by (cases m; cases "N (the m)") (auto simp: bound_of_def split: if_splits)

lemma le_bound_of:
  "cast_bound (bound_of N m) = Some hi \<Longrightarrow> le_bound hi p = nonempty_max N m p"
  by (cases m; cases "N (the m)") (auto simp: bound_of_def split: if_splits)

lemma nonempty_min_falsy: "\<not> truthy m \<Longrightarrow> nonempty_min N m p"
  by (cases m) auto

lemma nonempty_max_falsy: "\<not> truthy m \<Longrightarrow> nonempty_max N m p"
  by (cases m) auto

lemma not_a_number_falsy: "\<not> truthy m \<Longrightarrow> \<not> not_a_number N m"
  by (cases m) auto

lemma truthy_bound_of: "truthy m \<Longrightarrow> cast_bound (bound_of N m) = Some lo \<Longrightarrow> lo \<noteq> None"
  by (cases m; cases "N (the m)") (auto simp: bound_of_def split: if_splits)

lemma Item_find_make_filter:
  "Item_find (make_filter N c mn mx a ow) d =
     (if not_a_number N mn \<or> not_a_number N mx then None
      else Some (filter (satisfies_nonempty N c mn mx a ow) (items d)))"
proof (cases "truthy mn \<or> truthy mx")
  case False
  then have pr: "filter_pricePerDay (make_filter N c mn mx a ow) = None"
    by (simp add: make_filter_def)
  have m: "matches (filter_category (make_filter N c mn mx a ow))
             (filter_available (make_filter N c mn mx a ow))
             (filter_ownerEmail (make_filter N c mn mx a ow)) None
           = satisfies_nonempty N c mn mx a ow"
    using False
    by (intro ext; cases c; cases a; cases ow)
       (auto simp: matches_def make_filter_def satisfies_nonempty_def
          nonempty_min_falsy nonempty_max_falsy)
  show ?thesis
    using False pr by (simp add: Item_find_def m not_a_number_falsy)
next
  case True
  then have pr: "filter_pricePerDay (make_filter N c mn mx a ow) = Some (bound_of N mn, bound_of N mx)"
    by (simp add: make_filter_def)
  show ?thesis
  proof (cases "cast_bound (bound_of N mn)")
    case None
    then show ?thesis
      using pr by (simp add: Item_find_def cast_bound_of_None [symmetric])
  next
    case (Some lo)
    note lo = this
    show ?thesis
    proof (cases "cast_bound (bound_of N mx)")
      case None
      then show ?thesis
        using pr lo by (simp add: Item_find_def cast_bound_of_None [symmetric])
    next
      case (Some hi)
      have nn: "\<not> not_a_number N mn" "\<not> not_a_number N mx"
        using lo Some by (simp_all add: cast_bound_of_None [symmetric])
      have "lo \<noteq> None \<or> hi \<noteq> None"
        using True lo Some truthy_bound_of by blast
      then have m: "matches (filter_category (make_filter N c mn mx a ow))
                 (filter_available (make_filter N c mn mx a ow))
                 (filter_ownerEmail (make_filter N c mn mx a ow)) (Some (lo, hi))
              = satisfies_nonempty N c mn mx a ow"
        using ge_bound_of [OF lo] le_bound_of [OF Some]
        by (intro ext; cases lo; cases hi)
           (auto simp: matches_def make_filter_def satisfies_nonempty_def)
      show ?thesis
        using pr lo Some nn by (simp add: Item_find_def m)
    qed
  qed
qed

text \<open>
  C6, as amended. For every query whose price bounds, where supplied and not empty, are
  numbers, and every collection of stored items, \<open>listItems\<close> returns exactly the items
  that satisfy every supplied filter field, conjunctively: category and owner e-mail by
  equality, the price range inclusive on both bounds, and \<open>available\<close> against whether the
  parameter is the string \<open>true\<close>. Category, owner e-mail and the two price bounds count
  as supplied only when they are not the empty string; \<open>available\<close> counts whenever it is
  present, the empty string too. An absent field imposes no constraint, so the empty
  filter returns all items. When a price bound is supplied, not empty and not a number,
  the call answers \<open>InternalError\<close> instead.
\<close>

theorem listItems_spec:
  "listItems N d c mn mx a ow =
     (if not_a_number N mn \<or> not_a_number N mx then (InternalError, d)
      else ((200, ItemList (filter (satisfies_nonempty N c mn mx a ow) (items d))), d)) \<and>
   listItems N d None None None None None = ((200, ItemList (items d)), d)"
  by (simp add: listItems_def Item_find_make_filter satisfies_nonempty_def)

theorem listItems_spec_witness:
  "listItems example_Number catalog (Some ''tools'') (Some ''5'') (Some ''20'') None None
     = ((200, ItemList [ladder]), catalog) \<and>
   listItems example_Number catalog None (Some ''cheap'') None None None = (InternalError, catalog) \<and>
   listItems example_Number catalog None None (Some ''20'') (Some ''true'') (Some '''')
     = ((200, ItemList [ladder, kit]), catalog) \<and>
   listItems example_Number catalog None None None (Some '''') None
     = ((200, ItemList []), catalog) \<and>
   listItems example_Number catalog None (Some ''Infinity'') None None None
     = ((200, ItemList []), catalog) \<and>
   listItems example_Number catalog None None (Some ''Infinity'') None None
     = ((200, ItemList [ladder, drill, kit]), catalog)"
  using listItems_spec [of example_Number catalog "Some ''tools''" "Some ''5''" "Some ''20''" None None]
    listItems_spec [of example_Number catalog None "Some ''cheap''" None None None]
    listItems_spec [of example_Number catalog None None "Some ''20''" "Some ''true''" "Some ''''"]
    listItems_spec [of example_Number catalog None None None "Some ''''" None]
    listItems_spec [of example_Number catalog None "Some ''Infinity''" None None None]
    listItems_spec [of example_Number catalog None None "Some ''Infinity''" None None]
  by (simp add: catalog_def ladder_def drill_def kit_def example_Number_def satisfies_nonempty_def)

text \<open>
  C6 as stated has every supplied field constrain the result, and has the call return
  items for every filter. A query that supplies the empty string as category returns all
  three items of the catalog, and none of them has the empty category. A query whose
  lower price bound is the word \<open>cheap\<close> returns no list at all: it is answered
  \<open>InternalError\<close>.
\<close>

theorem listItems_empty_category_counterexample:
  "listItems example_Number catalog (Some '''') None None None None
     = ((200, ItemList [ladder, drill, kit]), catalog) \<and>
   filter (satisfies_supplied example_Number (Some '''') None None None None) (items catalog) = [] \<and>
   listItems example_Number catalog None (Some ''cheap'') None None None
     = (InternalError, catalog)"
  by (simp add: listItems_def Item_find_make_filter catalog_def ladder_def drill_def kit_def
      satisfies_nonempty_def satisfies_supplied_def example_Number_def)


lemma parse_atoms_literal:
  "set q \<inter> set metachars = {} \<Longrightarrow> parse_atoms q = Some (map Lit q)"
  by (induction q) (auto simp: metachars_def)

lemma match_here_Lit: "match_here f (map Lit q) t = prefix (map f q) (map f t)"
proof (induction q arbitrary: t)
  case Nil
  then show ?case by simp
next
  case (Cons c q)
  then show ?case by (cases t) auto
qed

lemma match_anywhere_Lit: "match_anywhere f (map Lit q) t = sublist (map f q) (map f t)"
proof (induction t)
  case Nil
  then show ?case by (cases q) auto
next
  case (Cons x t)
  then show ?case by (simp add: match_here_Lit sublist_Cons_right)
qed

lemma searchItems_literal:
  assumes "set q \<inter> set metachars = {}" and "CHR 0x00 \<notin> set q"
  shows "searchItems f other d (Some q)
           = ((200, ItemList (filter (\<lambda>it. contains_ci f q (title it)) (items d))), d)"
  using assms
  by (simp add: searchItems_def regex_i_def parse_atoms_literal match_anywhere_Lit contains_ci_def)

text \<open>
  C7, as amended. For every query string \<open>q\<close> that has no regular-expression metacharacter
  and no NUL character, and every collection of stored items, \<open>searchItems q\<close> returns
  exactly the items whose title contains \<open>q\<close> as a substring, compared case-insensitively
  (by the engine's case folding); when \<open>q\<close> is the empty string it returns all items.
\<close>

theorem searchItems_spec:
  "(set q \<inter> set metachars = {} \<and> CHR 0x00 \<notin> set q \<longrightarrow>
      searchItems casefold other d (Some q)
        = ((200, ItemList (filter (\<lambda>it. contains_ci casefold q (title it)) (items d))), d)) \<and>
   searchItems casefold other d (Some []) = ((200, ItemList (items d)), d)"
  using searchItems_literal [of "[]" casefold other d]
  by (auto simp: searchItems_literal contains_ci_def)

theorem searchItems_spec_witness:
  "set ''drill'' \<inter> set metachars = {} \<and> CHR 0x00 \<notin> set ''drill'' \<and>
   searchItems lower (\<lambda>q. None) catalog (Some ''drill'')
     = ((200, ItemList [drill, kit]), catalog) \<and>
   filter (\<lambda>it. contains_ci lower ''drill'' (title it)) (items catalog) = [drill, kit]"
  using searchItems_spec [of "''drill''" lower "\<lambda>q. None" catalog]
  by (simp add: metachars_def catalog_def ladder_def drill_def kit_def searchItems_def regex_i_def
      lower_def)

text \<open>
  C7 as stated has \<open>q\<close> compared as a substring, for every \<open>q\<close>, and has all items returned
  when \<open>q\<close> is absent. The handler passes \<open>q\<close> as a regular expression: the query \<open>.\<close>
  returns all three items of the catalog, and no title contains a dot. A query that is a
  NUL character is refused as a pattern, and so is the \<open>undefined\<close> of an absent \<open>q\<close>: both
  are answered \<open>InternalError\<close>.
\<close>

theorem searchItems_dot_counterexample:
  "searchItems lower (\<lambda>q. None) catalog (Some ''.'')
     = ((200, ItemList [ladder, drill, kit]), catalog) \<and>
   filter (\<lambda>it. contains_ci lower ''.'' (title it)) (items catalog) = [] \<and>
   searchItems lower (\<lambda>q. None) catalog (Some [CHR 0x00]) = (InternalError, catalog) \<and>
   searchItems lower (\<lambda>q. None) catalog None = (InternalError, catalog)"
  by (simp add: catalog_def ladder_def drill_def kit_def searchItems_def regex_i_def
      contains_ci_def lower_def sublist_code)


lemma find_append_last:
  "find P (xs @ [y]) = (case find P xs of Some x \<Rightarrow> Some x | None \<Rightarrow> if P y then Some y else None)"
  by (induction xs) auto

lemma addItem_step:
  "snd (addItem n now d t ds p c im ow) = d \<or>
   (\<exists>it. snd (addItem n now d t ds p c im ow) = d\<lparr>items := items d @ [it]\<rparr> \<and>
         item_id it = n \<and> n \<notin> item_id ` set (items d) \<and> available it \<and>
         rentedFrom it = None \<and> rentedTill it = None)"
proof (cases "truthy t \<and> truthy_num p \<and> truthy c \<and> truthy ow")
  case True
  then obtain tv pv cv owv where
    v: "t = Some tv" "tv \<noteq> []" "p = Some pv" "pv \<noteq> 0" "c = Some cv" "cv \<noteq> []"
       "ow = Some owv" "owv \<noteq> []"
    unfolding truthy_iff truthy_num_iff by blast
  show ?thesis
  proof (cases "n \<in> item_id ` set (items d)")
    case True
    then show ?thesis unfolding addItem_result [OF v, of n now d ds im] by simp
  next
    case False
    then show ?thesis
      unfolding addItem_result [OF v, of n now d ds im]
      by (intro disjI2 exI [of _ "\<lparr>item_id = n, title = tv, description = ds, pricePerDay = pv,
            category = cv, imageUrl = im, available = True, ownerEmail = owv,
            rentedFrom = None, rentedTill = None, createdAt = now\<rparr>"]) simp
  qed
next
  case False
  then have "fst (addItem n now d t ds p c im ow) = ValidationError_item"
    by (simp add: addItem_missing)
  then show ?thesis
    using addItem_outcome [of n now d t ds p c im ow] by (simp add: failures_def)
qed

lemma bookItem_step:
  "snd (bookItem parse d i s e) = d \<or>
   (\<exists>it f t. findById d i = Some it \<and> available it \<and>
      snd (bookItem parse d i s e)
        = save d (it\<lparr>available := False, rentedFrom := Some f, rentedTill := Some t\<rparr>))"
proof (cases "findById d i")
  case None
  then show ?thesis by (simp add: bookItem_def)
next
  case (Some it)
  show ?thesis
  proof (cases "available it")
    case False
    with Some show ?thesis by (simp add: bookItem_conflict)
  next
    case True
    show ?thesis
    proof (cases "Date_new parse s = InvalidDate \<or> Date_new parse e = InvalidDate")
      case True
      with Some \<open>available it\<close> show ?thesis by (simp add: bookItem_invalid)
    next
      case False
      then obtain f t where "Date_new parse s = Date f" "Date_new parse e = Date t"
        by (cases "Date_new parse s"; cases "Date_new parse e") auto
      with Some True have "snd (bookItem parse d i s e)
          = save d (it\<lparr>available := False, rentedFrom := Some f, rentedTill := Some t\<rparr>)"
        by (simp add: bookItem_success)
      with Some True show ?thesis by blast
    qed
  qed
qed

lemma returnItem_step:
  "(findById d i = None \<and> snd (returnItem d i) = d) \<or>
   (\<exists>it. findById d i = Some it \<and>
      snd (returnItem d i) = save d (it\<lparr>available := True, rentedFrom := None, rentedTill := None\<rparr>))"
  by (cases "findById d i") (simp_all add: returnItem_def)

lemma items_unchanged:
  "items (step L d (Register salt e p)) = items d"
  "items (step L d (Login e pw)) = items d"
  "items (step L d (ListItems c mn mx a ow)) = items d"
  "items (step L d (SearchItems q)) = items d"
proof -
  show "items (step L d (Register salt e p)) = items d"
    by (cases e; cases p; cases "findOne d (the e)") (simp_all add: step_def register_def)
  show "items (step L d (Login e pw)) = items d"
    using login_outcome [of "bcrypt_compare L" d e pw] by (simp add: step_def)
  show "items (step L d (ListItems c mn mx a ow)) = items d"
    using listItems_outcome [of "Number L" d c mn mx a ow] by (simp add: step_def)
  show "items (step L d (SearchItems q)) = items d"
    using searchItems_outcome [of "regex_fold L" "regex_other L" d q] by (simp add: step_def)
qed

lemma item_inv_new:
  "available it \<Longrightarrow> rentedFrom it = None \<Longrightarrow> rentedTill it = None \<Longrightarrow> item_inv it"
  by (simp add: item_inv_def)

lemma inv_step:
  assumes inv: "\<forall>it \<in> set (items d). item_inv it"
  shows "\<forall>it \<in> set (items (step L d r)). item_inv it"
proof (cases r)
  case (Register salt e p)
  then show ?thesis using inv by (simp add: items_unchanged)
next
  case (Login e p)
  then show ?thesis using inv by (simp add: items_unchanged)
next
  case (AddItem n now t ds p c im ow)
  then show ?thesis
    using inv addItem_step [of n now d t ds p c im ow]
    by (auto simp: step_def item_inv_new)
next
  case (ListItems c mn mx a ow)
  then show ?thesis using inv by (simp add: items_unchanged)
next
  case (SearchItems q)
  then show ?thesis using inv by (simp add: items_unchanged)
next
  case (BookItem i s e)
  then show ?thesis
    using inv bookItem_step [of "Date_parse L" d i s e]
    by (auto simp: step_def save_def item_inv_def)
next
  case (ReturnItem i)
  then show ?thesis
    using inv returnItem_step [of d i]
    by (auto simp: step_def save_def item_inv_def)
qed

lemma inv_foldl:
  "\<forall>it \<in> set (items d). item_inv it \<Longrightarrow> \<forall>it \<in> set (items (foldl (step L) d rs)). item_inv it"
proof (induction rs arbitrary: d)
  case Nil
  then show ?case by simp
next
  case (Cons r rs)
  from inv_step [OF Cons.prems] have "\<forall>it \<in> set (items (step L d r)). item_inv it" .
  from Cons.IH [OF this] show ?case by simp
qed

lemma inv_run: "\<forall>it \<in> set (items (run L rs)). item_inv it"
  unfolding run_def by (rule inv_foldl) (simp add: empty_db_def)

lemma findById_step:
  "findById (step L d r) i = findById d i \<or>
   (findById d i = None \<and>
      (\<exists>now t ds p c im ow it'. r = AddItem i now t ds p c im ow \<and>
          findById (step L d r) i = Some it' \<and> available it')) \<or>
   (\<exists>s e it f t. r = BookItem i s e \<and> findById d i = Some it \<and> available it \<and>
      findById (step L d r) i
        = Some (it\<lparr>available := False, rentedFrom := Some f, rentedTill := Some t\<rparr>)) \<or>
   (\<exists>it. r = ReturnItem i \<and> findById d i = Some it \<and>
      findById (step L d r) i
        = Some (it\<lparr>available := True, rentedFrom := None, rentedTill := None\<rparr>))"
proof (cases r)
  case (Register salt e p)
  then show ?thesis by (simp add: findById_def items_unchanged)
next
  case (Login e p)
  then show ?thesis by (simp add: findById_def items_unchanged)
next
  case (ListItems c mn mx a ow)
  then show ?thesis by (simp add: findById_def items_unchanged)
next
  case (SearchItems q)
  then show ?thesis by (simp add: findById_def items_unchanged)
next
  case (AddItem n now t ds p c im ow)
  from addItem_step [of n now d t ds p c im ow] show ?thesis
  proof
    assume "snd (addItem n now d t ds p c im ow) = d"
    with AddItem show ?thesis by (simp add: step_def)
  next
    assume "\<exists>it. snd (addItem n now d t ds p c im ow) = d\<lparr>items := items d @ [it]\<rparr> \<and>
         item_id it = n \<and> n \<notin> item_id ` set (items d) \<and> available it \<and>
         rentedFrom it = None \<and> rentedTill it = None"
    then obtain it where
      it: "snd (addItem n now d t ds p c im ow) = d\<lparr>items := items d @ [it]\<rparr>"
        "item_id it = n" "n \<notin> item_id ` set (items d)" "available it"
      by blast
    have st: "findById (step L d r) i
                = (case findById d i of Some x \<Rightarrow> Some x
                   | None \<Rightarrow> if n = i then Some it else None)"
      using AddItem it(1,2) by (simp add: step_def findById_def find_append_last)
    show ?thesis
    proof (cases "findById d i")
      case (Some x)
      with st show ?thesis by simp
    next
      case None
      show ?thesis
      proof (cases "n = i")
        case True
        with st None have "findById (step L d r) i = Some it" by simp
        with True None AddItem it(4) show ?thesis by blast
      next
        case False
        with st None show ?thesis by simp
      qed
    qed
  qed
next
  case (BookItem j s e)
  from bookItem_step [of "Date_parse L" d j s e] show ?thesis
  proof
    assume "snd (bookItem (Date_parse L) d j s e) = d"
    with BookItem show ?thesis by (simp add: step_def)
  next
    assume "\<exists>it f t. findById d j = Some it \<and> available it \<and>
      snd (bookItem (Date_parse L) d j s e)
        = save d (it\<lparr>available := False, rentedFrom := Some f, rentedTill := Some t\<rparr>)"
    then obtain it f t where
      b: "findById d j = Some it" "available it"
        "snd (bookItem (Date_parse L) d j s e)
          = save d (it\<lparr>available := False, rentedFrom := Some f, rentedTill := Some t\<rparr>)"
      by blast
    have id: "item_id it = j" using b(1) by (rule findById_item_id)
    show ?thesis
    proof (cases "j = i")
      case True
      with BookItem b id have "findById (step L d r) i
          = Some (it\<lparr>available := False, rentedFrom := Some f, rentedTill := Some t\<rparr>)"
        by (simp add: step_def findById_save_same)
      with True BookItem b show ?thesis by blast
    next
      case False
      with BookItem b id show ?thesis by (simp add: step_def findById_save_other)
    qed
  qed
next
  case (ReturnItem j)
  from returnItem_step [of d j] show ?thesis
  proof
    assume "findById d j = None \<and> snd (returnItem d j) = d"
    with ReturnItem show ?thesis by (simp add: step_def)
  next
    assume "\<exists>it. findById d j = Some it \<and>
      snd (returnItem d j) = save d (it\<lparr>available := True, rentedFrom := None, rentedTill := None\<rparr>)"
    then obtain it where
      b: "findById d j = Some it"
        "snd (returnItem d j) = save d (it\<lparr>available := True, rentedFrom := None, rentedTill := None\<rparr>)"
      by blast
    have id: "item_id it = j" using b(1) by (rule findById_item_id)
    show ?thesis
    proof (cases "j = i")
      case True
      with ReturnItem b id have "findById (step L d r) i
          = Some (it\<lparr>available := True, rentedFrom := None, rentedTill := None\<rparr>)"
        by (simp add: step_def findById_save_same)
      with True ReturnItem b show ?thesis by blast
    next
      case False
      with ReturnItem b id show ?thesis by (simp add: step_def findById_save_other)
    qed
  qed
qed


text \<open>
  C2. Every item of a database reached from the empty one by any sequence of requests
  satisfies the invariant: not available implies both rental dates set, available implies
  both unset. An item that appears under an identifier was created by \<open>addItem\<close> and is
  available; an available item becomes rented only by a \<open>bookItem\<close> of it, and a
  \<open>bookItem\<close> of a rented item is refused with \<open>ConflictError\<close>; a rented item becomes
  available only by a \<open>returnItem\<close> of it, and \<open>returnItem\<close> of an existing item always
  leaves it available; no request removes an item.
\<close>

theorem item_lifecycle:
  "(\<forall>x \<in> set (items (run L rs)). item_inv x) \<and>
   (findById d i = None \<and> findById (step L d r) i = Some it' \<longrightarrow>
      available it' \<and> (\<exists>now t ds p c im ow. r = AddItem i now t ds p c im ow)) \<and>
   (findById d i = Some it \<and> available it \<and> findById (step L d r) i = Some it' \<and> \<not> available it' \<longrightarrow>
      (\<exists>s e. r = BookItem i s e)) \<and>
   (findById d i = Some it \<and> \<not> available it \<longrightarrow>
      handle L d (BookItem i s e) = (ConflictError, d)) \<and>
   (findById d i = Some it \<and> \<not> available it \<and> findById (step L d r) i = Some it' \<and> available it' \<longrightarrow>
      r = ReturnItem i) \<and>
   (findById d i = Some it \<longrightarrow>
      (\<exists>x. findById (step L d (ReturnItem i)) i = Some x \<and> available x)) \<and>
   (findById d i = Some it \<longrightarrow> (\<exists>x. findById (step L d r) i = Some x))"
proof (intro conjI impI)
  show "\<forall>x \<in> set (items (run L rs)). item_inv x" by (rule inv_run)
next
  assume "findById d i = None \<and> findById (step L d r) i = Some it'"
  then show "available it'" using findById_step [of L d r i] by auto
next
  assume "findById d i = None \<and> findById (step L d r) i = Some it'"
  then show "\<exists>now t ds p c im ow. r = AddItem i now t ds p c im ow"
    using findById_step [of L d r i] by auto
next
  assume "findById d i = Some it \<and> available it \<and> findById (step L d r) i = Some it' \<and> \<not> available it'"
  then show "\<exists>s e. r = BookItem i s e"
    using findById_step [of L d r i] by auto
next
  assume "findById d i = Some it \<and> \<not> available it"
  then show "handle L d (BookItem i s e) = (ConflictError, d)"
    by (simp add: bookItem_conflict)
next
  assume "findById d i = Some it \<and> \<not> available it \<and> findById (step L d r) i = Some it' \<and> available it'"
  then show "r = ReturnItem i"
    using findById_step [of L d r i] by auto
next
  assume "findById d i = Some it"
  then show "\<exists>x. findById (step L d (ReturnItem i)) i = Some x \<and> available x"
    using findById_step [of L d "ReturnItem i" i] returnItem_step [of d i]
    by (auto simp: step_def findById_save_same dest: findById_item_id)
next
  assume "findById d i = Some it"
  then show "\<exists>x. findById (step L d r) i = Some x"
    using findById_step [of L d r i] by auto
qed

theorem item_lifecycle_witness:
  "run example_lib
     [AddItem 1 1700000000000 (Some ''Ladder'') None (Some 10) (Some ''tools'') None (Some ''a@x.com''),
      BookItem 1 (Some ''2024-01-01'') (Some ''2024-01-05'')]
     = \<lparr>users = [], items = [ladder_rented]\<rparr> \<and>
   item_inv ladder_rented \<and>
   findById ladder_only 1 = Some ladder \<and> available ladder \<and>
   findById (step example_lib ladder_only (BookItem 1 (Some ''2024-01-01'') (Some ''2024-01-05''))) 1
     = Some ladder_rented \<and>
   \<not> available ladder_rented"
  using item_lifecycle [of example_lib
      "[AddItem 1 1700000000000 (Some ''Ladder'') None (Some 10) (Some ''tools'') None (Some ''a@x.com''),
        BookItem 1 (Some ''2024-01-01'') (Some ''2024-01-05'')]"
      ladder_only 1 "BookItem 1 (Some ''2024-01-01'') (Some ''2024-01-05'')" ladder_rented ladder]
  by (simp add: run_def step_def empty_db_def example_lib_def example_parse_def addItem_def
      insert_item_def bookItem_def findById_def save_def ladder_only_def ladder_def
      ladder_rented_def)


lemma rented_step:
  assumes "findById d i = Some it" "\<not> available it" "r \<noteq> ReturnItem i"
  shows "\<exists>x. findById (step L d r) i = Some x \<and> \<not> available x"
  using assms findById_step [of L d r i] by auto

lemma rented_foldl:
  "findById d i = Some it \<Longrightarrow> \<not> available it \<Longrightarrow> ReturnItem i \<notin> set rs \<Longrightarrow>
   \<exists>x. findById (foldl (step L) d rs) i = Some x \<and> \<not> available x"
proof (induction rs arbitrary: d it)
  case Nil
  then show ?case by simp
next
  case (Cons r rs)
  from Cons.prems have "r \<noteq> ReturnItem i" by auto
  from rented_step [OF Cons.prems(1,2) this] obtain x where
    x: "findById (step L d r) i = Some x" "\<not> available x"
    by blast
  from Cons.prems have "ReturnItem i \<notin> set rs" by simp
  from Cons.IH [OF x this] show ?case by simp
qed

lemma bookItem_result:
  "(findById d i = None \<longrightarrow> bookItem parse d i s e = (NotFoundError, d)) \<and>
   (\<forall>it. findById d i = Some it \<and> \<not> available it \<longrightarrow>
      bookItem parse d i s e = (ConflictError, d)) \<and>
   (\<forall>it f t. findById d i = Some it \<and> available it \<and>
        Date_new parse s = Date f \<and> Date_new parse e = Date t \<longrightarrow>
      fst (bookItem parse d i s e) = (200, Msg ''Item booked successfully'') \<and>
      findById (snd (bookItem parse d i s e)) i
        = Some (it\<lparr>available := False, rentedFrom := Some f, rentedTill := Some t\<rparr>) \<and>
      (\<forall>rs s' e'. ReturnItem i \<notin> set rs \<longrightarrow>
         fst (bookItem parse (foldl (step L) (snd (bookItem parse d i s e)) rs) i s' e')
           = ConflictError))"
proof (intro conjI allI impI)
  assume "findById d i = None"
  then show "bookItem parse d i s e = (NotFoundError, d)"
    by (simp add: bookItem_def)
next
  fix it assume "findById d i = Some it \<and> \<not> available it"
  then show "bookItem parse d i s e = (ConflictError, d)"
    by (simp add: bookItem_conflict)
next
  fix it f t
  assume a: "findById d i = Some it \<and> available it \<and>
        Date_new parse s = Date f \<and> Date_new parse e = Date t"
  let ?it' = "it\<lparr>available := False, rentedFrom := Some f, rentedTill := Some t\<rparr>"
  have b: "bookItem parse d i s e = ((200, Msg ''Item booked successfully''), save d ?it')"
    using a by (simp add: bookItem_success)
  have id: "item_id ?it' = i" using a by (auto dest: findById_item_id)
  have f: "findById (save d ?it') i = Some ?it'"
    using a id by (simp add: findById_save_same)
  show "fst (bookItem parse d i s e) = (200, Msg ''Item booked successfully'')"
    by (simp add: b)
  show "findById (snd (bookItem parse d i s e)) i = Some ?it'"
    by (simp add: b f)
  fix rs s' e'
  assume "ReturnItem i \<notin> set rs"
  with rented_foldl [OF f, of rs L] obtain x where
    "findById (foldl (step L) (save d ?it') rs) i = Some x" "\<not> available x"
    by auto
  then show "fst (bookItem parse (foldl (step L) (snd (bookItem parse d i s e)) rs) i s' e')
               = ConflictError"
    by (simp add: b bookItem_conflict)
qed

text \<open>
  C1, as amended. For every call of \<open>bookItem\<close> whose identifier is a well-formed ObjectId:
  on an identifier that no item has it answers \<open>NotFoundError\<close>; on an item that is not
  available it answers \<open>ConflictError\<close>; both leave the database as it was. On an
  available item, when \<open>startDate\<close> and \<open>endDate\<close> both denote valid dates, it answers
  success, and afterwards the item is not available, \<open>rentedFrom\<close> is the time of
  \<open>startDate\<close> and \<open>rentedTill\<close> the time of \<open>endDate\<close>; a \<open>bookItem\<close> on the item after
  any further requests, none of them a \<open>returnItem\<close> of the item, then answers
  \<open>ConflictError\<close>, whatever its dates.
\<close>

theorem post_book_spec:
  assumes "objectId ident = Some i"
  shows "(findById d i = None \<longrightarrow> post_book objectId parse d ident s e = (NotFoundError, d)) \<and>
   (\<forall>it. findById d i = Some it \<and> \<not> available it \<longrightarrow>
      post_book objectId parse d ident s e = (ConflictError, d)) \<and>
   (\<forall>it f t. findById d i = Some it \<and> available it \<and>
        Date_new parse s = Date f \<and> Date_new parse e = Date t \<longrightarrow>
      fst (post_book objectId parse d ident s e) = (200, Msg ''Item booked successfully'') \<and>
      findById (snd (post_book objectId parse d ident s e)) i
        = Some (it\<lparr>available := False, rentedFrom := Some f, rentedTill := Some t\<rparr>) \<and>
      (\<forall>rs s' e'. ReturnItem i \<notin> set rs \<longrightarrow>
         fst (post_book objectId parse
                (foldl (step L) (snd (post_book objectId parse d ident s e)) rs) ident s' e')
           = ConflictError))"
proof -
  have eq: "post_book objectId parse d' ident s' e' = bookItem parse d' i s' e'" for d' s' e'
    using assms by (simp add: post_book_def)
  show ?thesis unfolding eq by (rule bookItem_result)
qed

theorem post_book_spec_witness:
  "example_objectId ''000000000000000000000001'' = Some 1 \<and>
   findById ladder_only 1 = Some ladder \<and> available ladder \<and>
   Date_new example_parse (Some ''2024-01-01'') = Date 1704067200000 \<and>
   Date_new example_parse (Some ''2024-01-05'') = Date 1704412800000 \<and>
   fst (post_book example_objectId example_parse ladder_only ''000000000000000000000001''
          (Some ''2024-01-01'') (Some ''2024-01-05''))
     = (200, Msg ''Item booked successfully'') \<and>
   findById (snd (post_book example_objectId example_parse ladder_only
                    ''000000000000000000000001'' (Some ''2024-01-01'') (Some ''2024-01-05''))) 1
     = Some ladder_rented \<and>
   ReturnItem 1 \<notin> set [ReturnItem 2, SearchItems (Some ''ladder'')] \<and>
   fst (post_book example_objectId example_parse
      (foldl (step example_lib)
         (snd (post_book example_objectId example_parse ladder_only
                 ''000000000000000000000001'' (Some ''2024-01-01'') (Some ''2024-01-05'')))
         [ReturnItem 2, SearchItems (Some ''ladder'')])
      ''000000000000000000000001'' (Some ''2024-01-05'') None)
     = ConflictError \<and>
   example_objectId ''000000000000000000000007'' = Some 7 \<and>
   findById ladder_only 7 = None \<and>
   post_book example_objectId example_parse ladder_only ''000000000000000000000007''
       (Some ''2024-01-01'') (Some ''2024-01-05'')
     = (NotFoundError, ladder_only)"
proof -
  let ?s = "Some ''2024-01-01''" and ?e = "Some ''2024-01-05''"
  let ?one = "''000000000000000000000001''" and ?seven = "''000000000000000000000007''"
  have id1: "example_objectId ?one = Some 1" and id7: "example_objectId ?seven = Some 7"
    by (simp_all add: example_objectId_def)
  have pre: "findById ladder_only 1 = Some ladder \<and> available ladder \<and>
      Date_new example_parse ?s = Date 1704067200000 \<and>
      Date_new example_parse ?e = Date 1704412800000"
    by (simp add: ladder_only_def ladder_def findById_def example_parse_def)
  have rented: "ladder\<lparr>available := False, rentedFrom := Some 1704067200000,
                       rentedTill := Some 1704412800000\<rparr> = ladder_rented"
    by (simp add: ladder_rented_def)
  from post_book_spec [of example_objectId ?one 1 ladder_only example_parse ?s ?e example_lib]
    id1 pre
  have post: "fst (post_book example_objectId example_parse ladder_only ?one ?s ?e)
        = (200, Msg ''Item booked successfully'') \<and>
      findById (snd (post_book example_objectId example_parse ladder_only ?one ?s ?e)) 1
        = Some (ladder\<lparr>available := False, rentedFrom := Some 1704067200000,
                         rentedTill := Some 1704412800000\<rparr>) \<and>
      (\<forall>rs s' e'. ReturnItem 1 \<notin> set rs \<longrightarrow>
         fst (post_book example_objectId example_parse
                (foldl (step example_lib)
                   (snd (post_book example_objectId example_parse ladder_only ?one ?s ?e)) rs)
                ?one s' e')
           = ConflictError)"
    by blast
  have quiet: "ReturnItem 1 \<notin> set [ReturnItem 2, SearchItems (Some ''ladder'')]"
    by simp
  with post have later: "fst (post_book example_objectId example_parse
      (foldl (step example_lib)
         (snd (post_book example_objectId example_parse ladder_only ?one ?s ?e))
         [ReturnItem 2, SearchItems (Some ''ladder'')])
      ?one ?e None) = ConflictError"
    by blast
  have none: "findById ladder_only 7 = None"
    by (simp add: ladder_only_def ladder_def findById_def)
  with post_book_spec [of example_objectId ?seven 7 ladder_only example_parse ?s ?e] id7
  have missing: "post_book example_objectId example_parse ladder_only ?seven ?s ?e
      = (NotFoundError, ladder_only)"
    by blast
  from id1 id7 pre post rented quiet later none missing show ?thesis
    by (intro conjI) simp_all
qed

text \<open>
  C1 as stated has \<open>NotFoundError\<close> for every identifier that no item has, and success for
  every call on an available item. The identifier \<open>abc\<close> is no ObjectId, so no item has
  it: \<open>Item.findById\<close> rejects it with a \<open>CastError\<close> and the handler answers
  \<open>InternalError\<close>. And on the available ladder the start date \<open>soon\<close> is no date:
  \<open>new Date\<close> gives an Invalid Date, the cast of the \<open>Date\<close> path fails, \<open>save()\<close> rejects,
  and the handler answers \<open>InternalError\<close> with the ladder still available.
\<close>

theorem post_book_counterexample:
  "example_objectId ''abc'' = None \<and>
   post_book example_objectId example_parse ladder_only ''abc''
       (Some ''2024-01-01'') (Some ''2024-01-05'')
     = (InternalError, ladder_only) \<and>
   example_objectId ''000000000000000000000001'' = Some 1 \<and>
   findById ladder_only 1 = Some ladder \<and> available ladder \<and>
   post_book example_objectId example_parse ladder_only ''000000000000000000000001''
       (Some ''soon'') (Some ''2024-01-05'')
     = (InternalError, ladder_only)"
  by (simp add: example_objectId_def post_book_def ladder_only_def ladder_def findById_def
      example_parse_def bookItem_def)

end
